theory Spec2Isabelle
  imports Complex_Main "HOL-Library.AList"
begin

section \<open>Smooth rounded rectangles (shell/renderer/electron_smooth_round_rect.cc)\<close>

text \<open>
  The C++ computes in \<^verbatim>\<open>float\<close>. The model computes over the real numbers: every
  arithmetic operation and every call of \<^verbatim>\<open>sin\<close>, \<^verbatim>\<open>cos\<close>, \<^verbatim>\<open>tan\<close> is the exact one,
  rounding is not modelled. \<^verbatim>\<open>std::numbers::pi\<close> is \<open>pi\<close>.
\<close>

subsection \<open>Points and vectors of Skia\<close>

record SkPoint =
  fX :: real
  fY :: real

type_synonym SkVector = SkPoint

text \<open>\<^verbatim>\<open>SkPoint::Make(x, y)\<close>, and the operators \<^verbatim>\<open>+\<close>, \<^verbatim>\<open>-\<close> on two points and
  \<^verbatim>\<open>*\<close> of a vector by a scalar, all componentwise.\<close>

definition Make :: "real \<Rightarrow> real \<Rightarrow> SkPoint" where
  "Make x y = \<lparr>fX = x, fY = y\<rparr>"

definition point_add :: "SkPoint \<Rightarrow> SkPoint \<Rightarrow> SkPoint" where
  "point_add a b = Make (fX a + fX b) (fY a + fY b)"

definition point_sub :: "SkPoint \<Rightarrow> SkPoint \<Rightarrow> SkPoint" where
  "point_sub a b = Make (fX a - fX b) (fY a - fY b)"

definition point_scale :: "SkVector \<Rightarrow> real \<Rightarrow> SkVector" where
  "point_scale v s = Make (fX v * s) (fY v * s)"

subsection \<open>Paths\<close>

text \<open>
  An \<^verbatim>\<open>SkPath\<close> is modelled as the sequence of the drawing calls made on it, in call
  order. \<^verbatim>\<open>arcTo\<close> is the overload taking the radii, the x axis rotation, the arc
  size, the direction and the end point.
\<close>

datatype ArcSize = kSmall_ArcSize | kLarge_ArcSize

datatype SkPathDirection = kCW | kCCW

datatype PathCommand =
    MoveTo SkPoint
  | LineTo SkPoint
  | CubicTo SkPoint SkPoint SkPoint
  | ArcTo SkPoint real ArcSize SkPathDirection SkPoint
  | Close

type_synonym SkPath = "PathCommand list"

definition moveTo :: "SkPoint \<Rightarrow> SkPath \<Rightarrow> SkPath" where
  "moveTo p path = path @ [MoveTo p]"

definition lineTo :: "SkPoint \<Rightarrow> SkPath \<Rightarrow> SkPath" where
  "lineTo p path = path @ [LineTo p]"

definition cubicTo :: "SkPoint \<Rightarrow> SkPoint \<Rightarrow> SkPoint \<Rightarrow> SkPath \<Rightarrow> SkPath" where
  "cubicTo c1 c2 p path = path @ [CubicTo c1 c2 p]"

definition arcTo :: "SkPoint \<Rightarrow> real \<Rightarrow> ArcSize \<Rightarrow> SkPathDirection \<Rightarrow> SkPoint \<Rightarrow> SkPath \<Rightarrow> SkPath" where
  "arcTo r rot sz dir p path = path @ [ArcTo r rot sz dir p]"

definition close :: "SkPath \<Rightarrow> SkPath" where
  "close path = path @ [Close]"

subsection \<open>The constants and helpers of the anonymous namespace\<close>

definition PI_DIV_4 :: real where
  "PI_DIV_4 = pi / 4"

definition EDGE_CURVE_POINT_RATIO :: real where
  "EDGE_CURVE_POINT_RATIO = 2 / 3"

definition MakeXPoint :: "real \<Rightarrow> SkPoint" where
  "MakeXPoint x = Make x 0"

definition MakeYPoint :: "real \<Rightarrow> SkPoint" where
  "MakeYPoint y = Make 0 y"

subsection \<open>CalculateSmoothRoundRect\<close>

text \<open>
  The five \<^verbatim>\<open>DCHECK\<close>s at the head of the function, in source order. A failed
  \<^verbatim>\<open>DCHECK\<close> is fatal in a build where \<^verbatim>\<open>DCHECK_IS_ON()\<close> holds and is compiled out
  otherwise; \<open>dchecks\<close> returns the first one that fails.
\<close>

datatype CheckFailure =
    Check_width_GT_0
  | Check_height_GT_0
  | Check_smoothness_GT_0
  | Check_smoothness_LE_1
  | Check_radius_GT_0

definition dchecks :: "real \<Rightarrow> real \<Rightarrow> real \<Rightarrow> real \<Rightarrow> CheckFailure option" where
  "dchecks width height smoothness radius =
     (if \<not> width > 0 then Some Check_width_GT_0
      else if \<not> height > 0 then Some Check_height_GT_0
      else if \<not> smoothness > 0 then Some Check_smoothness_GT_0
      else if \<not> smoothness \<le> 1 then Some Check_smoothness_LE_1
      else if \<not> radius > 0 then Some Check_radius_GT_0
      else None)"

text \<open>The section "Calculations": every local of the source, under its name.\<close>

record Calculations =
  rounding_segment_length :: real
  smoothing_rounding_segment_length :: real
  edge_connecting_offset :: real
  arc_connecting_angle :: real
  arc_connecting_vector :: SkVector
  arc_curve_offset_from_connecting :: real
  arc_curve_offset :: real
  edge_curve_offset :: real

definition calculations :: "real \<Rightarrow> real \<Rightarrow> Calculations" where
  "calculations smoothness radius =
     (let rounding_segment_length = radius;
          smoothing_rounding_segment_length = (1 + smoothness) * rounding_segment_length;
          edge_connecting_offset = smoothing_rounding_segment_length;
          arc_connecting_angle = PI_DIV_4 * smoothness;
          arc_connecting_vector =
            point_scale (Make (1 - sin arc_connecting_angle) (1 - cos arc_connecting_angle)) radius;
          arc_curve_offset_from_connecting =
            tan (arc_connecting_angle / 2) * cos arc_connecting_angle * radius;
          arc_curve_offset = fX arc_connecting_vector + arc_curve_offset_from_connecting;
          edge_curve_offset =
            smoothing_rounding_segment_length -
              ((smoothing_rounding_segment_length - arc_curve_offset) * EDGE_CURVE_POINT_RATIO)
      in \<lparr>rounding_segment_length = rounding_segment_length,
          smoothing_rounding_segment_length = smoothing_rounding_segment_length,
          edge_connecting_offset = edge_connecting_offset,
          arc_connecting_angle = arc_connecting_angle,
          arc_connecting_vector = arc_connecting_vector,
          arc_curve_offset_from_connecting = arc_curve_offset_from_connecting,
          arc_curve_offset = arc_curve_offset,
          edge_curve_offset = edge_curve_offset\<rparr>)"

text \<open>The section "Drawing the path": the four corners in source order, one definition
  per corner, each taking the path built so far.\<close>

definition upper_left :: "Calculations \<Rightarrow> real \<Rightarrow> real \<Rightarrow> real \<Rightarrow> SkPath \<Rightarrow> SkPath" where
  "upper_left c x y radius path =
     (let upper_left_corner = Make x y;
          path = moveTo (point_add upper_left_corner (MakeYPoint (edge_connecting_offset c))) path;
          path = cubicTo (point_add upper_left_corner (MakeYPoint (edge_curve_offset c)))
                   (point_add upper_left_corner (MakeYPoint (arc_curve_offset c)))
                   (point_add upper_left_corner
                      (Make (fY (arc_connecting_vector c)) (fX (arc_connecting_vector c)))) path;
          path = arcTo (Make radius radius) 0 kSmall_ArcSize kCW
                   (point_add upper_left_corner (arc_connecting_vector c)) path;
          path = cubicTo (point_add upper_left_corner (MakeXPoint (arc_curve_offset c)))
                   (point_add upper_left_corner (MakeXPoint (edge_curve_offset c)))
                   (point_add upper_left_corner (MakeXPoint (edge_connecting_offset c))) path
      in path)"

definition upper_right :: "Calculations \<Rightarrow> real \<Rightarrow> real \<Rightarrow> real \<Rightarrow> real \<Rightarrow> SkPath \<Rightarrow> SkPath" where
  "upper_right c x y width radius path =
     (let upper_right_corner = Make (x + width) y;
          path = lineTo (point_sub upper_right_corner (MakeXPoint (edge_connecting_offset c))) path;
          path = cubicTo (point_sub upper_right_corner (MakeXPoint (edge_curve_offset c)))
                   (point_sub upper_right_corner (MakeXPoint (arc_curve_offset c)))
                   (point_sub upper_right_corner
                      (Make (fX (arc_connecting_vector c)) (- fY (arc_connecting_vector c)))) path;
          path = arcTo (Make radius radius) 0 kSmall_ArcSize kCW
                   (point_sub upper_right_corner
                      (Make (fY (arc_connecting_vector c)) (- fX (arc_connecting_vector c)))) path;
          path = cubicTo (point_add upper_right_corner (MakeYPoint (arc_curve_offset c)))
                   (point_add upper_right_corner (MakeYPoint (edge_curve_offset c)))
                   (point_add upper_right_corner (MakeYPoint (edge_connecting_offset c))) path
      in path)"

definition bottom_right :: "Calculations \<Rightarrow> real \<Rightarrow> real \<Rightarrow> real \<Rightarrow> real \<Rightarrow> real \<Rightarrow> SkPath \<Rightarrow> SkPath" where
  "bottom_right c x y width height radius path =
     (let bottom_right_corner = Make (x + width) (y + height);
          path = lineTo (point_sub bottom_right_corner (MakeYPoint (edge_connecting_offset c))) path;
          path = cubicTo (point_sub bottom_right_corner (MakeYPoint (edge_curve_offset c)))
                   (point_sub bottom_right_corner (MakeYPoint (arc_curve_offset c)))
                   (point_sub bottom_right_corner
                      (Make (fY (arc_connecting_vector c)) (fX (arc_connecting_vector c)))) path;
          path = arcTo (Make radius radius) 0 kSmall_ArcSize kCW
                   (point_sub bottom_right_corner (arc_connecting_vector c)) path;
          path = cubicTo (point_sub bottom_right_corner (MakeXPoint (arc_curve_offset c)))
                   (point_sub bottom_right_corner (MakeXPoint (edge_curve_offset c)))
                   (point_sub bottom_right_corner (MakeXPoint (edge_connecting_offset c))) path
      in path)"

definition bottom_left :: "Calculations \<Rightarrow> real \<Rightarrow> real \<Rightarrow> real \<Rightarrow> real \<Rightarrow> SkPath \<Rightarrow> SkPath" where
  "bottom_left c x y height radius path =
     (let bottom_left_corner = Make x (y + height);
          path = lineTo (point_add bottom_left_corner (MakeXPoint (edge_connecting_offset c))) path;
          path = cubicTo (point_add bottom_left_corner (MakeXPoint (edge_curve_offset c)))
                   (point_add bottom_left_corner (MakeXPoint (arc_curve_offset c)))
                   (point_add bottom_left_corner
                      (Make (fX (arc_connecting_vector c)) (- fY (arc_connecting_vector c)))) path;
          path = arcTo (Make radius radius) 0 kSmall_ArcSize kCW
                   (point_add bottom_left_corner
                      (Make (fY (arc_connecting_vector c)) (- fX (arc_connecting_vector c)))) path;
          path = cubicTo (point_sub bottom_left_corner (MakeYPoint (arc_curve_offset c)))
                   (point_sub bottom_left_corner (MakeYPoint (edge_curve_offset c)))
                   (point_sub bottom_left_corner (MakeYPoint (edge_connecting_offset c))) path
      in path)"

definition draw_path :: "Calculations \<Rightarrow> real \<Rightarrow> real \<Rightarrow> real \<Rightarrow> real \<Rightarrow> real \<Rightarrow> SkPath" where
  "draw_path c x y width height radius =
     (let path = [];
          path = upper_left c x y radius path;
          path = upper_right c x y width radius path;
          path = bottom_right c x y width height radius path;
          path = bottom_left c x y height radius path
      in close path)"

text \<open>The function itself. \<open>dcheck_is_on\<close> is the build flag \<^verbatim>\<open>DCHECK_IS_ON()\<close>.\<close>

definition CalculateSmoothRoundRect ::
  "bool \<Rightarrow> real \<Rightarrow> real \<Rightarrow> real \<Rightarrow> real \<Rightarrow> real \<Rightarrow> real \<Rightarrow> CheckFailure + SkPath" where
  "CalculateSmoothRoundRect dcheck_is_on x y width height smoothness radius =
     (case (if dcheck_is_on then dchecks width height smoothness radius else None) of
        Some failure \<Rightarrow> Inl failure
      | None \<Rightarrow> Inr (draw_path (calculations smoothness radius) x y width height radius))"

text \<open>The preconditions the source asserts.\<close>

definition valid_input :: "real \<Rightarrow> real \<Rightarrow> real \<Rightarrow> real \<Rightarrow> bool" where
  "valid_input width height smoothness radius \<longleftrightarrow>
     width > 0 \<and> height > 0 \<and> smoothness > 0 \<and> smoothness \<le> 1 \<and> radius > 0"

subsection \<open>Reading a path\<close>

text \<open>
  The verb of a drawing call, the first point of a path (the point of its opening
  \<^verbatim>\<open>moveTo\<close>) and its last point (\<^verbatim>\<open>SkPath::getLastPt\<close>: the end point of the last call
  that adds a point; \<^verbatim>\<open>close\<close> adds none).
\<close>

datatype Verb = kMove | kLine | kCubic | kArc | kClose

fun verb :: "PathCommand \<Rightarrow> Verb" where
  "verb (MoveTo _) = kMove"
| "verb (LineTo _) = kLine"
| "verb (CubicTo _ _ _) = kCubic"
| "verb (ArcTo _ _ _ _ _) = kArc"
| "verb Close = kClose"

definition count_verb :: "Verb \<Rightarrow> SkPath \<Rightarrow> nat" where
  "count_verb v path = length (filter (\<lambda>c. verb c = v) path)"

fun end_point :: "PathCommand \<Rightarrow> SkPoint option" where
  "end_point (MoveTo p) = Some p"
| "end_point (LineTo p) = Some p"
| "end_point (CubicTo _ _ p) = Some p"
| "end_point (ArcTo _ _ _ _ p) = Some p"
| "end_point Close = None"

fun first_point :: "SkPath \<Rightarrow> SkPoint option" where
  "first_point (MoveTo p # _) = Some p"
| "first_point _ = None"

fun last_point_rev :: "PathCommand list \<Rightarrow> SkPoint option" where
  "last_point_rev [] = None"
| "last_point_rev (c # cs) = (case end_point c of Some p \<Rightarrow> Some p | None \<Rightarrow> last_point_rev cs)"

definition last_point :: "SkPath \<Rightarrow> SkPoint option" where
  "last_point path = last_point_rev (rev path)"

text \<open>
  The outline a path draws, as the sequence of its pieces, each with its start point:
  a call draws from the current point to its end point, \<^verbatim>\<open>moveTo\<close> starts a contour
  and draws nothing, and \<^verbatim>\<open>close\<close> draws the straight piece from the current point
  back to the start of the contour. A path that does not open with \<^verbatim>\<open>moveTo\<close> starts
  at the origin, as in Skia.
\<close>

datatype Segment =
    LineSeg SkPoint SkPoint
  | CubicSeg SkPoint SkPoint SkPoint SkPoint
  | ArcSeg SkPoint SkPoint real ArcSize SkPathDirection SkPoint

fun segments_from :: "SkPoint \<Rightarrow> SkPoint \<Rightarrow> SkPath \<Rightarrow> Segment list" where
  "segments_from start cur [] = []"
| "segments_from start cur (MoveTo p # cs) = segments_from p p cs"
| "segments_from start cur (LineTo p # cs) = LineSeg cur p # segments_from start p cs"
| "segments_from start cur (CubicTo c1 c2 p # cs) = CubicSeg cur c1 c2 p # segments_from start p cs"
| "segments_from start cur (ArcTo r rot sz dir p # cs) =
     ArcSeg cur r rot sz dir p # segments_from start p cs"
| "segments_from start cur (Close # cs) = LineSeg cur start # segments_from start start cs"

definition segments :: "SkPath \<Rightarrow> Segment list" where
  "segments path = segments_from (Make 0 0) (Make 0 0) path"

fun seg_start :: "Segment \<Rightarrow> SkPoint" where
  "seg_start (LineSeg a _) = a"
| "seg_start (CubicSeg a _ _ _) = a"
| "seg_start (ArcSeg a _ _ _ _ _) = a"

fun seg_end :: "Segment \<Rightarrow> SkPoint" where
  "seg_end (LineSeg _ b) = b"
| "seg_end (CubicSeg _ _ _ b) = b"
| "seg_end (ArcSeg _ _ _ _ _ b) = b"

fun is_line :: "Segment \<Rightarrow> bool" where
  "is_line (LineSeg _ _) = True"
| "is_line _ = False"

text \<open>Every piece starts where the one before it ends.\<close>

fun connected :: "Segment list \<Rightarrow> bool" where
  "connected (s # t # rest) = (seg_end s = seg_start t \<and> connected (t # rest))"
| "connected _ = True"

text \<open>
  The quarter turn about the point \<open>c\<close> that takes the upper left corner of a square
  centred at \<open>c\<close> to its upper right corner (clockwise on screen, where y grows
  downwards), on points and on pieces. A quarter turn swaps the two radii of an
  elliptic arc and keeps its direction.
\<close>

definition rotate90 :: "SkPoint \<Rightarrow> SkPoint \<Rightarrow> SkPoint" where
  "rotate90 c p = Make (fX c - (fY p - fY c)) (fY c + (fX p - fX c))"

fun rotate90_segment :: "SkPoint \<Rightarrow> Segment \<Rightarrow> Segment" where
  "rotate90_segment c (LineSeg a b) = LineSeg (rotate90 c a) (rotate90 c b)"
| "rotate90_segment c (CubicSeg a c1 c2 b) =
     CubicSeg (rotate90 c a) (rotate90 c c1) (rotate90 c c2) (rotate90 c b)"
| "rotate90_segment c (ArcSeg a r rot sz dir b) =
     ArcSeg (rotate90 c a) (Make (fY r) (fX r)) rot sz dir (rotate90 c b)"

definition rect_center :: "real \<Rightarrow> real \<Rightarrow> real \<Rightarrow> real \<Rightarrow> SkPoint" where
  "rect_center x y width height = Make (x + width / 2) (y + height / 2)"

section \<open>Preload scripts (shell/browser/preload_script.h)\<close>

subsection \<open>V8 values and the converters the header calls\<close>

text \<open>
  A V8 value, as far as the converters of this header tell values apart. An object is
  the list of its properties, key and value, in insertion order; prototypes and
  accessors are not modelled. A \<^verbatim>\<open>std::string\<close> is a list of bytes. A V8 string is
  represented by the bytes \<^verbatim>\<open>v8::String::WriteUtf8\<close> writes for it, which tell V8
  strings apart.
\<close>

datatype v8_value =
    V8Undefined
  | V8Null
  | V8Boolean bool
  | V8Number real
  | V8String string
  | V8Object "(string \<times> v8_value) list"

type_synonym Dictionary = "(string \<times> v8_value) list"

text \<open>
  Modelled from the spec: \<^verbatim>\<open>v8::String::NewFromUtf8\<close> is not among the sources. It
  decodes UTF-8 and puts U+FFFD, the replacement character, in the place of every
  maximal ill-formed run of bytes; written back as UTF-8, U+FFFD is the three bytes EF
  BF BD. \<open>utf8_from\<close> is the two steps in one, a byte at a time: \<open>pend\<close> holds the
  bytes of a sequence begun and not yet complete, and \<open>utf8_classify\<close> says whether
  the next byte completes the sequence, continues it or cannot follow (the
  well-formed byte sequences of the Unicode standard, table 3-7). A byte that cannot
  follow ends the run, which is replaced, and is then read again as the start of a
  sequence.
\<close>

datatype Utf8Step = Utf8Complete | Utf8Continue | Utf8Reject

definition utf8_classify :: "string \<Rightarrow> char \<Rightarrow> Utf8Step" where
  "utf8_classify pend b =
     (let n = (of_char b :: nat); cont = (0x80 \<le> n \<and> n \<le> 0xBF) in
      case pend of
        [] \<Rightarrow>
          if n < 0x80 then Utf8Complete
          else if 0xC2 \<le> n \<and> n \<le> 0xF4 then Utf8Continue else Utf8Reject
      | [l] \<Rightarrow>
          (let m = (of_char l :: nat) in
           if m \<le> 0xDF then (if cont then Utf8Complete else Utf8Reject)
           else if m = 0xE0 then (if 0xA0 \<le> n \<and> n \<le> 0xBF then Utf8Continue else Utf8Reject)
           else if m = 0xED then (if 0x80 \<le> n \<and> n \<le> 0x9F then Utf8Continue else Utf8Reject)
           else if m \<le> 0xEF then (if cont then Utf8Continue else Utf8Reject)
           else if m = 0xF0 then (if 0x90 \<le> n \<and> n \<le> 0xBF then Utf8Continue else Utf8Reject)
           else if m = 0xF4 then (if 0x80 \<le> n \<and> n \<le> 0x8F then Utf8Continue else Utf8Reject)
           else (if cont then Utf8Continue else Utf8Reject))
      | [l, _] \<Rightarrow>
          if cont then (if of_char l \<le> (0xEF :: nat) then Utf8Complete else Utf8Continue)
          else Utf8Reject
      | _ \<Rightarrow> if cont then Utf8Complete else Utf8Reject)"

definition utf8_replacement :: string where
  "utf8_replacement = [CHR 0xEF, CHR 0xBF, CHR 0xBD]"

fun utf8_from :: "string \<Rightarrow> string \<Rightarrow> string" where
  "utf8_from pend [] = (if pend = [] then [] else utf8_replacement)"
| "utf8_from pend (b # bs) =
     (case utf8_classify pend b of
        Utf8Complete \<Rightarrow> pend @ b # utf8_from [] bs
      | Utf8Continue \<Rightarrow> utf8_from (pend @ [b]) bs
      | Utf8Reject \<Rightarrow>
          (if pend = [] then utf8_replacement @ utf8_from [] bs
           else utf8_replacement @
             (case utf8_classify [] b of
                Utf8Complete \<Rightarrow> b # utf8_from [] bs
              | Utf8Continue \<Rightarrow> utf8_from [b] bs
              | Utf8Reject \<Rightarrow> utf8_replacement @ utf8_from [] bs)))"

definition is_ascii :: "char \<Rightarrow> bool" where
  "is_ascii c \<longleftrightarrow> (of_char c :: nat) < 0x80"

text \<open>
  Modelled from the spec: the converters of gin (\<^verbatim>\<open>gin/converter.h\<close>,
  \<^verbatim>\<open>gin/dictionary.h\<close>) and \<^verbatim>\<open>gin_helper::Dictionary\<close>
  (\<^verbatim>\<open>shell/common/gin_helper/dictionary.h\<close>) are not among the sources. The spec calls
  this layer a pure structural conversion, and the model is that: \<^verbatim>\<open>StringToV8\<close> makes
  the V8 string of a \<^verbatim>\<open>std::string\<close> with \<^verbatim>\<open>NewFromUtf8\<close>;
  \<^verbatim>\<open>Converter<std::string>::FromV8\<close> succeeds on a string value only and writes it out
  as UTF-8; \<^verbatim>\<open>Converter<Dictionary>::FromV8\<close> succeeds on an object only;
  \<^verbatim>\<open>Dictionary::Set\<close> stores a property; \<^verbatim>\<open>Dictionary::Get\<close> succeeds when the key is
  present and its value converts. A converter \<^verbatim>\<open>bool FromV8(isolate, val, T* out)\<close> is
  a function to \<open>T option\<close>: \<open>Some t\<close> when it returns true with \<open>t\<close> in \<^verbatim>\<open>*out\<close>.
\<close>

definition StringToV8 :: "string \<Rightarrow> v8_value" where
  "StringToV8 s = V8String (utf8_from [] s)"

fun string_FromV8 :: "v8_value \<Rightarrow> string option" where
  "string_FromV8 (V8String s) = Some s"
| "string_FromV8 _ = None"

fun Dictionary_FromV8 :: "v8_value \<Rightarrow> Dictionary option" where
  "Dictionary_FromV8 (V8Object dict) = Some dict"
| "Dictionary_FromV8 _ = None"

definition Dictionary_Set :: "string \<Rightarrow> v8_value \<Rightarrow> Dictionary \<Rightarrow> Dictionary" where
  "Dictionary_Set key val dict = AList.update key val dict"

definition Dictionary_Get :: "(v8_value \<Rightarrow> 'a option) \<Rightarrow> Dictionary \<Rightarrow> string \<Rightarrow> 'a option" where
  "Dictionary_Get from_v8 dict key =
     (case map_of dict key of None \<Rightarrow> None | Some val \<Rightarrow> from_v8 val)"

text \<open>
  Modelled from the spec: \<^verbatim>\<open>FromV8WithLookup\<close>
  (\<^verbatim>\<open>shell/common/gin_converters/std_converter.h\<close>) is not among the sources. It
  converts the value to a string and looks the string up in the table; it fails when
  either step does.
\<close>

definition FromV8WithLookup :: "v8_value \<Rightarrow> (string \<times> 'a) list \<Rightarrow> 'a option" where
  "FromV8WithLookup val table =
     (case string_FromV8 val of None \<Rightarrow> None | Some key \<Rightarrow> map_of table key)"

text \<open>\<^verbatim>\<open>base::fixed_flat_map::at\<close>: the value stored at a key. A key that is absent is
  a fatal \<^verbatim>\<open>CHECK\<close>; \<open>ScriptType_ToV8_Lookup_total\<close> below shows that the one table read
  with it has every key.\<close>

definition flat_map_at :: "('k \<times> 'v) list \<Rightarrow> 'k \<Rightarrow> 'v" where
  "flat_map_at table key = the (map_of table key)"

text \<open>
  Modelled from the spec: \<^verbatim>\<open>base::FilePath\<close> and its converter
  (\<^verbatim>\<open>shell/common/gin_converters/file_path_converter.h\<close>) are not among the sources, and
  \<^verbatim>\<open>Converter<bool>::FromV8\<close> reads the truthiness of a value, which depends on parts of
  a value the model leaves out. A path is a value of any type \<open>'path\<close>, and the three
  functions are parameters of the model: \<^verbatim>\<open>FilePath::AsUTF8Unsafe\<close>, and
  \<^verbatim>\<open>ConvertFromV8\<close> into a fresh \<^verbatim>\<open>base::FilePath\<close> and into a \<^verbatim>\<open>bool\<close>.
\<close>

record 'path Converters =
  AsUTF8Unsafe :: "'path \<Rightarrow> string"
  FilePath_FromV8 :: "v8_value \<Rightarrow> 'path option"
  bool_FromV8 :: "v8_value \<Rightarrow> bool option"

subsection \<open>PreloadScript and its two converters\<close>

datatype ScriptType = kWebFrame | kServiceWorker

record 'path PreloadScript =
  id' :: string
  script_type :: ScriptType
  file_path :: 'path
  deprecated :: bool

text \<open>\<^verbatim>\<open>gin::Converter<PreloadScript::ScriptType>\<close>, with the table of each function.\<close>

definition ScriptType_ToV8_Lookup :: "(ScriptType \<times> string) list" where
  "ScriptType_ToV8_Lookup = [(kWebFrame, ''frame''), (kServiceWorker, ''service-worker'')]"

definition ScriptType_ToV8 :: "ScriptType \<Rightarrow> v8_value" where
  "ScriptType_ToV8 val = StringToV8 (flat_map_at ScriptType_ToV8_Lookup val)"

definition ScriptType_FromV8_Lookup :: "(string \<times> ScriptType) list" where
  "ScriptType_FromV8_Lookup = [(''frame'', kWebFrame), (''service-worker'', kServiceWorker)]"

definition ScriptType_FromV8 :: "v8_value \<Rightarrow> ScriptType option" where
  "ScriptType_FromV8 val = FromV8WithLookup val ScriptType_FromV8_Lookup"

text \<open>\<^verbatim>\<open>gin::Converter<PreloadScript>\<close>. \<open>PreloadScript_FromV8\<close> takes the script
  \<^verbatim>\<open>*out\<close> holds before the call and returns the result of the call together with the
  script \<^verbatim>\<open>*out\<close> holds after it: a call that fails has already written the fields
  read before the failure.\<close>

definition PreloadScript_ToV8 :: "'path Converters \<Rightarrow> 'path PreloadScript \<Rightarrow> v8_value" where
  "PreloadScript_ToV8 g script =
     (let dict = [];
          dict = Dictionary_Set ''filePath'' (StringToV8 (AsUTF8Unsafe g (file_path script))) dict;
          dict = Dictionary_Set ''id'' (StringToV8 (id' script)) dict;
          dict = Dictionary_Set ''type'' (ScriptType_ToV8 (script_type script)) dict
      in V8Object dict)"

definition PreloadScript_FromV8 ::
  "'path Converters \<Rightarrow> v8_value \<Rightarrow> 'path PreloadScript \<Rightarrow> bool \<times> 'path PreloadScript" where
  "PreloadScript_FromV8 g val out =
     (case Dictionary_FromV8 val of
        None \<Rightarrow> (False, out)
      | Some options \<Rightarrow>
          (case Dictionary_Get ScriptType_FromV8 options ''type'' of
             None \<Rightarrow> (False, out)
           | Some local_script_type \<Rightarrow>
               (let out = out\<lparr>script_type := local_script_type\<rparr> in
                case Dictionary_Get (FilePath_FromV8 g) options ''filePath'' of
                  None \<Rightarrow> (False, out)
                | Some local_file_path \<Rightarrow>
                    (let out = out\<lparr>file_path := local_file_path\<rparr> in
                     case Dictionary_Get string_FromV8 options ''id'' of
                       None \<Rightarrow> (False, out)
                     | Some local_id \<Rightarrow>
                         (let out = out\<lparr>id' := local_id\<rparr> in
                          case Dictionary_Get (bool_FromV8 g) options ''_deprecated'' of
                            Some local_deprecated \<Rightarrow> (True, out\<lparr>deprecated := local_deprecated\<rparr>)
                          | None \<Rightarrow> (True, out))))))"

section \<open>Theorems\<close>

subsection \<open>The path as an explicit list of commands\<close>

lemmas path_defs = draw_path_def upper_left_def upper_right_def bottom_right_def bottom_left_def
  moveTo_def lineTo_def cubicTo_def arcTo_def close_def Let_def

lemmas point_defs = point_add_def point_sub_def point_scale_def MakeXPoint_def MakeYPoint_def

lemma Make_eq_iff: "Make a b = Make c d \<longleftrightarrow> a = c \<and> b = d"
  by (simp add: Make_def)

lemma Make_sel: "fX (Make a b) = a" "fY (Make a b) = b"
  by (simp_all add: Make_def)

lemma draw_path_commands:
  "draw_path c x y width height radius =
     (let eco = edge_connecting_offset c; ec = edge_curve_offset c; ac = arc_curve_offset c;
          vx = fX (arc_connecting_vector c); vy = fY (arc_connecting_vector c);
          r = Make radius radius; X = x + width; Y = y + height
      in [MoveTo (Make x (y + eco)),
          CubicTo (Make x (y + ec)) (Make x (y + ac)) (Make (x + vy) (y + vx)),
          ArcTo r 0 kSmall_ArcSize kCW (Make (x + vx) (y + vy)),
          CubicTo (Make (x + ac) y) (Make (x + ec) y) (Make (x + eco) y),
          LineTo (Make (X - eco) y),
          CubicTo (Make (X - ec) y) (Make (X - ac) y) (Make (X - vx) (y + vy)),
          ArcTo r 0 kSmall_ArcSize kCW (Make (X - vy) (y + vx)),
          CubicTo (Make X (y + ac)) (Make X (y + ec)) (Make X (y + eco)),
          LineTo (Make X (Y - eco)),
          CubicTo (Make X (Y - ec)) (Make X (Y - ac)) (Make (X - vy) (Y - vx)),
          ArcTo r 0 kSmall_ArcSize kCW (Make (X - vx) (Y - vy)),
          CubicTo (Make (X - ac) Y) (Make (X - ec) Y) (Make (X - eco) Y),
          LineTo (Make (x + eco) Y),
          CubicTo (Make (x + ec) Y) (Make (x + ac) Y) (Make (x + vx) (Y - vy)),
          ArcTo r 0 kSmall_ArcSize kCW (Make (x + vy) (Y - vx)),
          CubicTo (Make x (Y - ac)) (Make x (Y - ec)) (Make x (Y - eco)),
          Close])"
  by (simp add: path_defs point_defs Make_sel)

lemma calculations_fields:
  "rounding_segment_length (calculations s r) = r"
  "smoothing_rounding_segment_length (calculations s r) = (1 + s) * r"
  "edge_connecting_offset (calculations s r) = (1 + s) * r"
  "arc_connecting_angle (calculations s r) = pi / 4 * s"
  "arc_connecting_vector (calculations s r) =
     Make ((1 - sin (pi / 4 * s)) * r) ((1 - cos (pi / 4 * s)) * r)"
  "arc_curve_offset_from_connecting (calculations s r) =
     tan (pi / 4 * s / 2) * cos (pi / 4 * s) * r"
  "arc_curve_offset (calculations s r) =
     (1 - sin (pi / 4 * s)) * r + tan (pi / 4 * s / 2) * cos (pi / 4 * s) * r"
  "edge_curve_offset (calculations s r) =
     (1 + s) * r -
       ((1 + s) * r - ((1 - sin (pi / 4 * s)) * r + tan (pi / 4 * s / 2) * cos (pi / 4 * s) * r))
         * (2 / 3)"
  by (simp_all add: calculations_def Let_def PI_DIV_4_def EDGE_CURVE_POINT_RATIO_def
      point_scale_def Make_sel)

lemma dchecks_valid:
  "valid_input width height smoothness radius \<Longrightarrow> dchecks width height smoothness radius = None"
  by (simp add: valid_input_def dchecks_def)

lemma CalculateSmoothRoundRect_valid:
  "valid_input width height smoothness radius \<Longrightarrow>
   CalculateSmoothRoundRect dcheck_is_on x y width height smoothness radius =
     Inr (draw_path (calculations smoothness radius) x y width height radius)"
  by (simp add: CalculateSmoothRoundRect_def dchecks_valid)

lemma count_verb_map: "count_verb v path = length (filter (\<lambda>k. k = v) (map verb path))"
  by (simp add: count_verb_def filter_map comp_def)

lemma draw_path_verbs:
  "map verb (draw_path c x y width height radius) =
     [kMove, kCubic, kArc, kCubic, kLine, kCubic, kArc, kCubic,
      kLine, kCubic, kArc, kCubic, kLine, kCubic, kArc, kCubic, kClose]"
  by (simp add: draw_path_commands Let_def)

lemma draw_path_counts:
  "count_verb kMove (draw_path c x y width height radius) = 1"
  "count_verb kLine (draw_path c x y width height radius) = 3"
  "count_verb kCubic (draw_path c x y width height radius) = 8"
  "count_verb kArc (draw_path c x y width height radius) = 4"
  "count_verb kClose (draw_path c x y width height radius) = 1"
  by (simp_all add: count_verb_map draw_path_verbs)

lemma draw_path_first_point:
  "first_point (draw_path c x y width height radius) =
     Some (Make x (y + edge_connecting_offset c))"
  by (simp add: draw_path_commands Let_def)

lemma draw_path_last_point:
  "last_point (draw_path c x y width height radius) =
     Some (Make x (y + height - edge_connecting_offset c))"
  by (simp add: draw_path_commands Let_def last_point_def)

lemma draw_path_segments:
  "length (segments (draw_path c x y width height radius)) = 16"
  "length (filter is_line (segments (draw_path c x y width height radius))) = 4"
  "connected (segments (draw_path c x y width height radius))"
  "seg_end (last (segments (draw_path c x y width height radius))) =
     seg_start (hd (segments (draw_path c x y width height radius)))"
  by (simp_all add: draw_path_commands Let_def segments_def)

lemma draw_path_quarter_turn:
  "map (rotate90_segment (rect_center x y width width))
       (segments (draw_path c x y width width radius)) =
     rotate 4 (segments (draw_path c x y width width radius))"
  by (simp add: draw_path_commands Let_def segments_def rotate_def eval_nat_numeral
      rotate90_def rect_center_def Make_sel Make_eq_iff)

lemma rotate90_quarter_turn:
  "rotate90 c c = Make (fX c) (fY c)"
  "rotate90 c (rotate90 c (rotate90 c (rotate90 c p))) = Make (fX p) (fY p)"
  "(fX (rotate90 c p) - fX c)\<^sup>2 + (fY (rotate90 c p) - fY c)\<^sup>2 =
     (fX p - fX c)\<^sup>2 + (fY p - fY c)\<^sup>2"
  "(fX (rotate90 c p) - fX c) * (fX p - fX c) + (fY (rotate90 c p) - fY c) * (fY p - fY c) = 0"
  by (simp_all add: rotate90_def Make_sel power2_eq_square algebra_simps)

subsection \<open>The shape of the path\<close>

text \<open>
  Claim C1, as stated: for every valid input the returned path is closed (its first
  and last points coincide) and contains exactly 4 line, 8 cubic and 4 arc commands.
  It fails at x = 0, y = 0, width = 100, height = 60, smoothness = 1, radius = 10: the
  path has 3 line commands, its first point is (0, 20) and its last point is (0, 40).
\<close>

theorem smooth_round_rect_four_lines_counterexample:
  "valid_input 100 60 1 10 \<and>
   \<not> isl (CalculateSmoothRoundRect True 0 0 100 60 1 10) \<and>
   count_verb kLine (projr (CalculateSmoothRoundRect True 0 0 100 60 1 10)) = 3 \<and>
   first_point (projr (CalculateSmoothRoundRect True 0 0 100 60 1 10)) = Some (Make 0 20) \<and>
   last_point (projr (CalculateSmoothRoundRect True 0 0 100 60 1 10)) = Some (Make 0 40) \<and>
   \<not> (first_point (projr (CalculateSmoothRoundRect True 0 0 100 60 1 10)) =
        last_point (projr (CalculateSmoothRoundRect True 0 0 100 60 1 10)) \<and>
      count_verb kLine (projr (CalculateSmoothRoundRect True 0 0 100 60 1 10)) = 4 \<and>
      count_verb kCubic (projr (CalculateSmoothRoundRect True 0 0 100 60 1 10)) = 8 \<and>
      count_verb kArc (projr (CalculateSmoothRoundRect True 0 0 100 60 1 10)) = 4)"
proof -
  have v: "valid_input 100 60 1 10"
    by (simp add: valid_input_def)
  have r: "CalculateSmoothRoundRect True 0 0 100 60 1 10 =
             Inr (draw_path (calculations 1 10) 0 0 100 60 10)"
    by (rule CalculateSmoothRoundRect_valid [OF v])
  show ?thesis
    by (simp add: v r draw_path_counts draw_path_first_point draw_path_last_point
        calculations_fields Make_eq_iff)
qed

text \<open>
  Claim C1, amended: for every valid input the function returns a path, in a build
  with \<^verbatim>\<open>DCHECK\<close>s and without. The path is one contour: a move-to, then for each
  corner a cubic, an arc and a cubic, with a line-to before every corner but the
  first, then close. So it has 1 move-to, 3 line-to, 8 cubic-to, 4 arc-to commands and
  1 close. Its first point is (x, y + p) and its last point is (x, y + height - p),
  with p = (1 + smoothness) * radius; they coincide exactly when height = 2p. The
  fourth straight edge, the left one, is the piece that close draws: the outline has
  16 pieces, 4 of them straight, each starting where the one before ends, and the
  last ends where the first starts.
\<close>

theorem smooth_round_rect_structure:
  assumes "valid_input width height smoothness radius"
  shows "\<exists>path. CalculateSmoothRoundRect dcheck_is_on x y width height smoothness radius = Inr path \<and>
           map verb path =
             [kMove, kCubic, kArc, kCubic, kLine, kCubic, kArc, kCubic,
              kLine, kCubic, kArc, kCubic, kLine, kCubic, kArc, kCubic, kClose] \<and>
           count_verb kMove path = 1 \<and> count_verb kLine path = 3 \<and>
           count_verb kCubic path = 8 \<and> count_verb kArc path = 4 \<and>
           count_verb kClose path = 1 \<and>
           first_point path = Some (Make x (y + (1 + smoothness) * radius)) \<and>
           last_point path = Some (Make x (y + height - (1 + smoothness) * radius)) \<and>
           (first_point path = last_point path) = (height = 2 * ((1 + smoothness) * radius)) \<and>
           length (segments path) = 16 \<and>
           length (filter is_line (segments path)) = 4 \<and>
           connected (segments path) \<and>
           seg_end (last (segments path)) = seg_start (hd (segments path))"
proof -
  let ?p = "draw_path (calculations smoothness radius) x y width height radius"
  have "CalculateSmoothRoundRect dcheck_is_on x y width height smoothness radius = Inr ?p"
    by (rule CalculateSmoothRoundRect_valid [OF assms])
  moreover have "(first_point ?p = last_point ?p) = (height = 2 * ((1 + smoothness) * radius))"
    by (auto simp add: draw_path_first_point draw_path_last_point calculations_fields Make_eq_iff)
  ultimately show ?thesis
    by (simp add: draw_path_verbs draw_path_counts draw_path_first_point draw_path_last_point
        draw_path_segments calculations_fields)
qed

theorem smooth_round_rect_structure_witness:
  "valid_input 100 60 1 10 \<and>
   (\<exists>path. CalculateSmoothRoundRect True 0 0 100 60 1 10 = Inr path \<and>
      count_verb kLine path = 3 \<and> count_verb kCubic path = 8 \<and> count_verb kArc path = 4 \<and>
      first_point path = Some (Make 0 20) \<and> last_point path = Some (Make 0 40) \<and>
      length (filter is_line (segments path)) = 4)"
proof -
  have v: "valid_input 100 60 1 10"
    by (simp add: valid_input_def)
  from smooth_round_rect_structure [OF v, of True 0 0] obtain path where
    "CalculateSmoothRoundRect True 0 0 100 60 1 10 = Inr path"
    "count_verb kLine path = 3" "count_verb kCubic path = 8" "count_verb kArc path = 4"
    "first_point path = Some (Make 0 ((1 + 1) * 10))"
    "last_point path = Some (Make 0 (60 - (1 + 1) * 10))"
    "length (filter is_line (segments path)) = 4"
    by auto
  with v show ?thesis by simp
qed

text \<open>
  Claim C2: for x = 0, y = 0, width = 100, height = 60, radius = 10, smoothness = 1 the
  path opens with a move-to to (0, 20), and 20 is the edge connecting offset
  (1 + 1) * 10. (At this input the operations that give this point are exact in
  \<^verbatim>\<open>float\<close> as well: all operands and results are small integers.)
\<close>

theorem first_move_to_of_concrete_scenario:
  "edge_connecting_offset (calculations 1 10) = (1 + 1) * 10 \<and>
   (\<exists>rest. CalculateSmoothRoundRect dcheck_is_on 0 0 100 60 1 10 = Inr (MoveTo (Make 0 20) # rest))"
proof -
  have v: "valid_input 100 60 1 10"
    by (simp add: valid_input_def)
  show ?thesis
    by (simp add: CalculateSmoothRoundRect_valid [OF v] draw_path_commands Let_def
        calculations_fields Make_eq_iff)
qed

subsection \<open>The calculations\<close>

lemma tan_pi_8: "tan (pi / 8) = sqrt 2 - 1"
proof -
  have s: "sqrt 2 * sqrt 2 = (2::real)"
    by simp
  have m: "(sqrt 2 - 1) * (sqrt 2 / 2 + 1) = sqrt 2 / 2"
    using s by (simp add: field_simps)
  have n: "sqrt 2 / 2 + 1 \<noteq> (0::real)"
    by (smt (verit) real_sqrt_ge_zero divide_nonneg_nonneg)
  have e: "(sqrt 2 / 2) / (sqrt 2 / 2 + 1) = sqrt 2 - 1"
    by (subst nonzero_divide_eq_eq [OF n]) (rule m [symmetric])
  have "tan (pi / 8) = sin (2 * (pi / 8)) / (cos (2 * (pi / 8)) + 1)"
    by (rule tan_half)
  also have "\<dots> = (sqrt 2 / 2) / (sqrt 2 / 2 + 1)"
    by (simp add: sin_45 cos_45)
  finally show ?thesis
    using e by simp
qed

text \<open>
  Claim C3: for every valid input the edge curve offset is p - (p - arc_curve_offset)
  * (2/3), where the ratio is the constant 2/3, p is the smoothed segment length
  (1 + smoothness) * radius and the arc curve offset is
  \<open>radius * (1 - sin \<alpha>) + radius * tan (\<alpha> / 2) * cos \<alpha>\<close> at the angle
  \<open>\<alpha> = (pi / 4) * smoothness\<close>. The offset computed is the one drawn: the first control
  point of the first cubic is the upper left corner moved down by it. At smoothness 1
  and radius 10 the offset is \<open>20 - 20 * sqrt 2 / 3\<close>, about 10.57.
\<close>

theorem edge_curve_offset_two_thirds:
  assumes "valid_input width height smoothness radius"
  shows "EDGE_CURVE_POINT_RATIO = 2 / 3 \<and>
         edge_curve_offset (calculations smoothness radius) =
           smoothing_rounding_segment_length (calculations smoothness radius) -
             (smoothing_rounding_segment_length (calculations smoothness radius) -
                arc_curve_offset (calculations smoothness radius)) * (2 / 3) \<and>
         smoothing_rounding_segment_length (calculations smoothness radius) =
           (1 + smoothness) * radius \<and>
         arc_curve_offset (calculations smoothness radius) =
           radius * (1 - sin (pi / 4 * smoothness)) +
             radius * tan (pi / 4 * smoothness / 2) * cos (pi / 4 * smoothness) \<and>
         edge_curve_offset (calculations smoothness radius) =
           (1 + smoothness) * radius -
             ((1 + smoothness) * radius -
                (radius * (1 - sin (pi / 4 * smoothness)) +
                   radius * tan (pi / 4 * smoothness / 2) * cos (pi / 4 * smoothness))) * (2 / 3) \<and>
         (\<exists>path. CalculateSmoothRoundRect dcheck_is_on x y width height smoothness radius = Inr path \<and>
            (\<exists>c2 e. path ! 1 =
               CubicTo (Make x (y + edge_curve_offset (calculations smoothness radius))) c2 e) \<and>
            (\<exists>c2 e. path ! 1 =
               CubicTo (Make x (y + ((1 + smoothness) * radius -
                  ((1 + smoothness) * radius -
                     (radius * (1 - sin (pi / 4 * smoothness)) +
                        radius * tan (pi / 4 * smoothness / 2) * cos (pi / 4 * smoothness))) * (2 / 3))))
                 c2 e))"
proof -
  have "CalculateSmoothRoundRect dcheck_is_on x y width height smoothness radius =
          Inr (draw_path (calculations smoothness radius) x y width height radius)"
    by (rule CalculateSmoothRoundRect_valid [OF assms])
  then show ?thesis
    by (simp add: EDGE_CURVE_POINT_RATIO_def calculations_fields draw_path_commands Let_def
        Make_eq_iff mult.commute)
qed

theorem edge_curve_offset_two_thirds_witness:
  "valid_input 100 60 1 10 \<and>
   smoothing_rounding_segment_length (calculations 1 10) = 20 \<and>
   arc_curve_offset (calculations 1 10) = 20 - 10 * sqrt 2 \<and>
   edge_curve_offset (calculations 1 10) = 20 - 20 * sqrt 2 / 3"
proof -
  have v: "valid_input 100 60 1 10"
    by (simp add: valid_input_def)
  have s: "sqrt 2 * sqrt 2 = (2::real)"
    by simp
  have a: "10 * (1 - sin (pi / 4 * 1)) + 10 * tan (pi / 4 * 1 / 2) * cos (pi / 4 * 1) =
             20 - 10 * sqrt 2"
    using s by (simp add: sin_45 cos_45 tan_pi_8 algebra_simps)
  from edge_curve_offset_two_thirds [OF v] have
    p: "smoothing_rounding_segment_length (calculations 1 10) = (1 + 1) * 10" and
    c: "arc_curve_offset (calculations 1 10) =
          10 * (1 - sin (pi / 4 * 1)) + 10 * tan (pi / 4 * 1 / 2) * cos (pi / 4 * 1)" and
    e: "edge_curve_offset (calculations 1 10) =
          (1 + 1) * 10 - ((1 + 1) * 10 -
             (10 * (1 - sin (pi / 4 * 1)) + 10 * tan (pi / 4 * 1 / 2) * cos (pi / 4 * 1))) * (2 / 3)"
    by blast+
  have "edge_curve_offset (calculations 1 10) = 20 - 20 * sqrt 2 / 3"
    unfolding e a by simp
  moreover have "arc_curve_offset (calculations 1 10) = 20 - 10 * sqrt 2"
    unfolding c a by simp
  ultimately show ?thesis
    using v p by simp
qed

text \<open>
  Claim C4: for every valid input, with the angle \<open>\<alpha> = (pi / 4) * smoothness\<close>, the
  arc connecting vector is \<open>radius * (1 - sin \<alpha>, 1 - cos \<alpha>)\<close> and the arc curve offset
  is the x component of that vector plus \<open>radius * tan (\<alpha> / 2) * cos \<alpha>\<close>. The vector
  computed is the one drawn: the first arc ends at the upper left corner moved by it.
\<close>

theorem arc_connecting_vector_and_offset:
  assumes "valid_input width height smoothness radius"
  shows "arc_connecting_angle (calculations smoothness radius) = pi / 4 * smoothness \<and>
         arc_connecting_vector (calculations smoothness radius) =
           Make (radius * (1 - sin (pi / 4 * smoothness))) (radius * (1 - cos (pi / 4 * smoothness))) \<and>
         arc_curve_offset (calculations smoothness radius) =
           fX (arc_connecting_vector (calculations smoothness radius)) +
             radius * tan (pi / 4 * smoothness / 2) * cos (pi / 4 * smoothness) \<and>
         (\<exists>path. CalculateSmoothRoundRect dcheck_is_on x y width height smoothness radius = Inr path \<and>
            path ! 2 = ArcTo (Make radius radius) 0 kSmall_ArcSize kCW
              (Make (x + radius * (1 - sin (pi / 4 * smoothness)))
                    (y + radius * (1 - cos (pi / 4 * smoothness)))))"
proof -
  have "CalculateSmoothRoundRect dcheck_is_on x y width height smoothness radius =
          Inr (draw_path (calculations smoothness radius) x y width height radius)"
    by (rule CalculateSmoothRoundRect_valid [OF assms])
  then show ?thesis
    by (simp add: calculations_fields draw_path_commands Let_def Make_sel Make_eq_iff mult.commute)
qed

theorem arc_connecting_vector_and_offset_witness:
  "valid_input 100 60 1 10 \<and>
   arc_connecting_angle (calculations 1 10) = pi / 4 \<and>
   arc_connecting_vector (calculations 1 10) = Make (10 * (1 - sqrt 2 / 2)) (10 * (1 - sqrt 2 / 2))"
proof -
  have v: "valid_input 100 60 1 10"
    by (simp add: valid_input_def)
  from arc_connecting_vector_and_offset [OF v] v show ?thesis
    by (simp add: sin_45 cos_45)
qed

text \<open>
  Claim C5: for every valid input the rounding segment length q is the radius, which
  is what \<open>radius * sqrt ((1 + cos \<theta>) / (1 - cos \<theta>))\<close> is at \<open>\<theta> = pi / 2\<close>, and
  the smoothed segment length is p = (1 + smoothness) * q. The length computed is the
  one drawn: the path starts at the upper left corner moved down by p.
\<close>

theorem segment_lengths:
  assumes "valid_input width height smoothness radius"
  shows "rounding_segment_length (calculations smoothness radius) = radius \<and>
         radius * sqrt ((1 + cos (pi / 2)) / (1 - cos (pi / 2))) = radius \<and>
         smoothing_rounding_segment_length (calculations smoothness radius) =
           (1 + smoothness) * rounding_segment_length (calculations smoothness radius) \<and>
         (\<exists>path. CalculateSmoothRoundRect dcheck_is_on x y width height smoothness radius = Inr path \<and>
            first_point path = Some (Make x (y + (1 + smoothness) * radius)))"
proof -
  have "CalculateSmoothRoundRect dcheck_is_on x y width height smoothness radius =
          Inr (draw_path (calculations smoothness radius) x y width height radius)"
    by (rule CalculateSmoothRoundRect_valid [OF assms])
  then show ?thesis
    by (simp add: calculations_fields draw_path_first_point)
qed

theorem segment_lengths_witness:
  "valid_input 100 60 1 10 \<and>
   rounding_segment_length (calculations 1 10) = 10 \<and>
   smoothing_rounding_segment_length (calculations 1 10) = 20"
proof -
  have v: "valid_input 100 60 1 10"
    by (simp add: valid_input_def)
  from segment_lengths [OF v] v show ?thesis
    by simp
qed

text \<open>
  The first half of claim C6, over the real numbers: for a positive radius the
  smoothed segment length grows strictly with the smoothness.
\<close>

lemma smoothing_rounding_segment_length_strict_mono:
  assumes "0 < radius" and "s1 < s2"
  shows "smoothing_rounding_segment_length (calculations s1 radius) <
         smoothing_rounding_segment_length (calculations s2 radius)"
  using assms by (simp add: calculations_fields)

subsection \<open>Symmetry\<close>

text \<open>
  Claim C7: for every valid input with width = height, the path is invariant under
  the quarter turn about the centre of the rectangle, up to the order of its
  commands: the quarter turn maps the sequence of drawn pieces (the fourth straight
  edge being the one close draws) to the same sequence started four pieces later,
  that is, at the next corner.
\<close>

theorem square_quarter_turn_invariant:
  assumes "valid_input width width smoothness radius"
  shows "\<exists>path. CalculateSmoothRoundRect dcheck_is_on x y width width smoothness radius = Inr path \<and>
           map (rotate90_segment (rect_center x y width width)) (segments path) =
             rotate 4 (segments path)"
proof -
  have "CalculateSmoothRoundRect dcheck_is_on x y width width smoothness radius =
          Inr (draw_path (calculations smoothness radius) x y width width radius)"
    by (rule CalculateSmoothRoundRect_valid [OF assms])
  then show ?thesis
    by (simp add: draw_path_quarter_turn)
qed

theorem square_quarter_turn_invariant_witness:
  "valid_input 100 100 1 10 \<and>
   (\<exists>path. CalculateSmoothRoundRect True 0 0 100 100 1 10 = Inr path \<and>
      map (rotate90_segment (Make 50 50)) (segments path) = rotate 4 (segments path))"
proof -
  have v: "valid_input 100 100 1 10"
    by (simp add: valid_input_def)
  from square_quarter_turn_invariant [OF v, of True 0 0] v show ?thesis
    by (simp add: rect_center_def)
qed

subsection \<open>Strings across the V8 boundary\<close>

lemma utf8_classify_ascii: "is_ascii b \<Longrightarrow> utf8_classify [] b = Utf8Complete"
  by (simp add: utf8_classify_def is_ascii_def Let_def)

lemma utf8_classify_Complete: "utf8_classify [] b = Utf8Complete \<Longrightarrow> is_ascii b"
  by (simp add: utf8_classify_def is_ascii_def Let_def split: if_splits)


lemma utf8_from_ascii: "\<forall>c\<in>set s. is_ascii c \<Longrightarrow> utf8_from [] s = s"
  by (induction s) (simp_all add: utf8_classify_ascii)




lemma StringToV8_ascii: "\<forall>c\<in>set s. is_ascii c \<Longrightarrow> StringToV8 s = V8String s"
  by (simp add: StringToV8_def utf8_from_ascii)


lemma string_round_trip_0xFF:
  "string_FromV8 (StringToV8 [CHR 0xFF]) = Some [CHR 0xEF, CHR 0xBF, CHR 0xBD]"
  by (simp add: StringToV8_def utf8_classify_def utf8_replacement_def)

subsection \<open>The converters of PreloadScript\<close>

lemma ScriptType_ToV8_Lookup_total: "map_of ScriptType_ToV8_Lookup t \<noteq> None"
  by (cases t) (simp_all add: ScriptType_ToV8_Lookup_def)

lemma ScriptType_ToV8_simps:
  "ScriptType_ToV8 kWebFrame = V8String ''frame''"
  "ScriptType_ToV8 kServiceWorker = V8String ''service-worker''"
  by (simp_all add: ScriptType_ToV8_def flat_map_at_def ScriptType_ToV8_Lookup_def
      StringToV8_ascii is_ascii_def)

lemma ScriptType_FromV8_string:
  "ScriptType_FromV8 (V8String s) =
     (if s = ''frame'' then Some kWebFrame
      else if s = ''service-worker'' then Some kServiceWorker else None)"
  by (simp add: ScriptType_FromV8_def FromV8WithLookup_def ScriptType_FromV8_Lookup_def)

lemma ScriptType_FromV8_ToV8: "ScriptType_FromV8 (ScriptType_ToV8 t) = Some t"
  by (cases t) (simp_all add: ScriptType_ToV8_simps ScriptType_FromV8_string)

lemma ScriptType_FromV8_not_string: "string_FromV8 v = None \<Longrightarrow> ScriptType_FromV8 v = None"
  by (simp add: ScriptType_FromV8_def FromV8WithLookup_def)


lemma PreloadScript_ToV8_object:
  "PreloadScript_ToV8 g s =
     V8Object [(''filePath'', StringToV8 (AsUTF8Unsafe g (file_path s))),
               (''id'', StringToV8 (id' s)),
               (''type'', ScriptType_ToV8 (script_type s))]"
  by (simp add: PreloadScript_ToV8_def Dictionary_Set_def)

text \<open>
  Whatever the converters of the path are, a round trip that succeeds gives the id
  back as \<^verbatim>\<open>NewFromUtf8\<close> and \<^verbatim>\<open>WriteUtf8\<close> leave it.
\<close>

lemma PreloadScript_round_trip_id:
  "fst (PreloadScript_FromV8 g (PreloadScript_ToV8 g s) out) \<Longrightarrow>
   id' (snd (PreloadScript_FromV8 g (PreloadScript_ToV8 g s) out)) = utf8_from [] (id' s)"
  by (auto simp add: PreloadScript_ToV8_object PreloadScript_FromV8_def Dictionary_Get_def
      ScriptType_FromV8_ToV8 StringToV8_def Let_def split: option.splits)




text \<open>
  Claim C9: the conversion from V8 succeeds exactly when the value is an object that
  has, at each of the keys type, filePath and id, a value its converter accepts. The
  key _deprecated plays no part in that; when the object does not have it, the
  deprecated flag of the target stays as it was. A value that is no object fails and
  leaves the target as it was.
\<close>

theorem PreloadScript_FromV8_succeeds_iff:
  "(fst (PreloadScript_FromV8 g val out) \<longleftrightarrow>
      (\<exists>options. Dictionary_FromV8 val = Some options \<and>
         (\<exists>v t. map_of options ''type'' = Some v \<and> ScriptType_FromV8 v = Some t) \<and>
         (\<exists>v p. map_of options ''filePath'' = Some v \<and> FilePath_FromV8 g v = Some p) \<and>
         (\<exists>v i. map_of options ''id'' = Some v \<and> string_FromV8 v = Some i))) \<and>
   (\<forall>options. Dictionary_FromV8 val = Some options \<longrightarrow> map_of options ''_deprecated'' = None \<longrightarrow>
      deprecated (snd (PreloadScript_FromV8 g val out)) = deprecated out) \<and>
   (Dictionary_FromV8 val = None \<longrightarrow> PreloadScript_FromV8 g val out = (False, out))"
  by (auto simp add: PreloadScript_FromV8_def Dictionary_Get_def Let_def split: option.splits)

theorem PreloadScript_FromV8_succeeds_iff_witness:
  "fst (PreloadScript_FromV8
          \<lparr>AsUTF8Unsafe = (\<lambda>p. p), FilePath_FromV8 = string_FromV8, bool_FromV8 = (\<lambda>v. Some True)\<rparr>
          (V8Object [(''type'', V8String ''frame''), (''filePath'', V8String ''/preload.js''),
                     (''id'', V8String ''a'')])
          \<lparr>id' = [], script_type = kServiceWorker, file_path = [], deprecated = False\<rparr>) \<and>
   \<not> deprecated (snd (PreloadScript_FromV8
          \<lparr>AsUTF8Unsafe = (\<lambda>p. p), FilePath_FromV8 = string_FromV8, bool_FromV8 = (\<lambda>v. Some True)\<rparr>
          (V8Object [(''type'', V8String ''frame''), (''filePath'', V8String ''/preload.js''),
                     (''id'', V8String ''a'')])
          \<lparr>id' = [], script_type = kServiceWorker, file_path = [], deprecated = False\<rparr>)) \<and>
   \<not> fst (PreloadScript_FromV8
          \<lparr>AsUTF8Unsafe = (\<lambda>p. p), FilePath_FromV8 = string_FromV8, bool_FromV8 = (\<lambda>v. Some True)\<rparr>
          (V8Object [(''type'', V8String ''frame''), (''filePath'', V8String ''/preload.js'')])
          \<lparr>id' = [], script_type = kServiceWorker, file_path = [], deprecated = False\<rparr>)"
  using PreloadScript_FromV8_succeeds_iff [of
     "\<lparr>AsUTF8Unsafe = (\<lambda>p. p), FilePath_FromV8 = string_FromV8, bool_FromV8 = (\<lambda>v. Some True)\<rparr>"
     "V8Object [(''type'', V8String ''frame''), (''filePath'', V8String ''/preload.js''),
                (''id'', V8String ''a'')]"
     "\<lparr>id' = [], script_type = kServiceWorker, file_path = [], deprecated = False\<rparr>"]
   PreloadScript_FromV8_succeeds_iff [of
     "\<lparr>AsUTF8Unsafe = (\<lambda>p. p), FilePath_FromV8 = string_FromV8, bool_FromV8 = (\<lambda>v. Some True)\<rparr>"
     "V8Object [(''type'', V8String ''frame''), (''filePath'', V8String ''/preload.js'')]"
     "\<lparr>id' = [], script_type = kServiceWorker, file_path = [], deprecated = False\<rparr>"]
  by (simp add: ScriptType_FromV8_def FromV8WithLookup_def ScriptType_FromV8_Lookup_def)


end
